theory Spec2Isabelle
  imports Complex_Main
begin

section \<open>Values of the host language\<close>

text \<open>
  \<^verbatim>\<open>core.ts\<close> works on JavaScript values. A \<^verbatim>\<open>number\<close> is modelled as a
  rational or \<open>NaN\<close> (finite doubles are rationals; the infinities are left out), and
  \<^verbatim>\<open>type Input = number | string\<close> as a tagged union. An optional property
  (\<^verbatim>\<open>masked?: Input\<close>) or an unset bound is an \<open>option\<close>, \<open>None\<close> being
  \<^verbatim>\<open>undefined\<close>/\<^verbatim>\<open>null\<close>.
\<close>

datatype number = NaN | Num rat

datatype Input = N number | S string

text \<open>Truthiness, as \<^verbatim>\<open>if (x)\<close>, \<^verbatim>\<open>x && y\<close> and \<^verbatim>\<open>x || y\<close> test it.\<close>

fun truthyNumber :: "number option \<Rightarrow> bool" where
  "truthyNumber None = False"
| "truthyNumber (Some NaN) = False"
| "truthyNumber (Some (Num r)) = (r \<noteq> 0)"

fun truthyInput :: "Input option \<Rightarrow> bool" where
  "truthyInput None = False"
| "truthyInput (Some (N n)) = truthyNumber (Some n)"
| "truthyInput (Some (S s)) = (s \<noteq> [])"

text \<open>\<^verbatim>\<open>a > b\<close> and \<^verbatim>\<open>a < b\<close> on numbers: false as soon as a side is \<open>NaN\<close>.\<close>

fun numGreater :: "number \<Rightarrow> number \<Rightarrow> bool" where
  "numGreater (Num a) (Num b) = (a > b)"
| "numGreater _ _ = False"

fun numLess :: "number \<Rightarrow> number \<Rightarrow> bool" where
  "numLess (Num a) (Num b) = (a < b)"
| "numLess _ _ = False"

text \<open>
  \<^verbatim>\<open>options.min < 0\<close>, where \<^verbatim>\<open>min\<close> may be unset: \<^verbatim>\<open>undefined\<close> converts
  to \<open>NaN\<close> (and \<^verbatim>\<open>null\<close> to 0), so the comparison is false.
\<close>

fun lessThanZero :: "number option \<Rightarrow> bool" where
  "lessThanZero None = False"
| "lessThanZero (Some n) = numLess n (Num 0)"

text \<open>Strict equality \<^verbatim>\<open>===\<close>: same tag and same value, and \<open>NaN\<close> equals nothing.\<close>

fun strictEq :: "Input option \<Rightarrow> Input option \<Rightarrow> bool" where
  "strictEq (Some (N NaN)) _ = False"
| "strictEq _ (Some (N NaN)) = False"
| "strictEq a b = (a = b)"

text \<open>
  \<^verbatim>\<open>String.prototype.slice(start, end)\<close>: a negative index counts from the end of
  the string, both indices are clamped to the string, and the result is empty when
  the start is not before the end.
\<close>

definition slice :: "string \<Rightarrow> int \<Rightarrow> int \<Rightarrow> string" where
  "slice s start fin =
     (let n = int (length s);
          from = (if start < 0 then max (n + start) 0 else min start n);
          to = (if fin < 0 then max (n + fin) 0 else min fin n)
      in if from < to then take (nat (to - from)) (drop (nat from) s) else [])"

text \<open>
  \<^verbatim>\<open>s.replace(pattern, '')\<close> with a string pattern: the first (leftmost) occurrence
  of the pattern is removed, wherever it stands; the empty pattern matches at the start.
\<close>

fun replaceFirst :: "string \<Rightarrow> string \<Rightarrow> string" where
  "replaceFirst pat [] = []"
| "replaceFirst pat (c # cs) =
     (if take (length pat) (c # cs) = pat then drop (length pat) (c # cs)
      else c # replaceFirst pat cs)"

text \<open>\<^verbatim>\<open>s.includes(sub)\<close> on strings: \<open>sub\<close> occurs somewhere in \<open>s\<close>.\<close>

fun includesStr :: "string \<Rightarrow> string \<Rightarrow> bool" where
  "includesStr [] sub = (sub = [])"
| "includesStr (c # cs) sub = (take (length sub) (c # cs) = sub \<or> includesStr cs sub)"

section \<open>The data model of core.ts\<close>

text \<open>
  \<^verbatim>\<open>interface Options\<close>. The bounds are \<^verbatim>\<open>number\<close>s that a configuration may
  leave unset. The fields \<^verbatim>\<open>min\<close> and \<^verbatim>\<open>max\<close> are named \<open>min_bound\<close> and
  \<open>max_bound\<close> here.
\<close>

record Options =
  prefix :: string
  suffix :: string
  separator :: string
  decimal :: string
  precision :: nat
  minimumFractionDigits :: nat
  prefill :: bool
  reverseFill :: bool
  min_bound :: "number option"
  max_bound :: "number option"
  nullValue :: string

text \<open>
  Events. \<^verbatim>\<open>detail?.facade\<close> is the marker of the events the handlers emit
  themselves. An event records whether \<^verbatim>\<open>stopPropagation()\<close> was called on it.
\<close>

record Detail =
  facade :: bool

record Event =
  ev_type :: string
  bubbles :: bool
  cancelable :: bool
  detail :: "Detail option"
  propagationStopped :: bool

record KeyboardEvent =
  keyCode :: int
  key :: string
  defaultPrevented :: bool

text \<open>
  \<^verbatim>\<open>interface CustomInputElement extends HTMLInputElement\<close>: the text of the field
  (\<^verbatim>\<open>el.value\<close>, here \<open>el_value\<close>), the caret (\<^verbatim>\<open>selectionEnd\<close>, a number or
  \<^verbatim>\<open>null\<close>), and the properties the handlers keep on the element. \<open>dispatched\<close>
  is the list of the events passed to \<^verbatim>\<open>el.dispatchEvent\<close>, oldest first: the
  listeners that receive them are wired outside this file.
\<close>

record CustomInputElement =
  el_value :: string
  selectionEnd :: "int option"
  options :: Options
  masked :: "Input option"
  unmaskedValue :: "Input option"
  oldValue :: "Input option"
  dispatched :: "Event list"

definition FacadeInputEvent :: Event where
  "FacadeInputEvent =
     \<lparr>ev_type = ''input'', bubbles = True, cancelable = True,
      detail = Some \<lparr>facade = True\<rparr>, propagationStopped = False\<rparr>"

definition FacadeChangeEvent :: Event where
  "FacadeChangeEvent =
     \<lparr>ev_type = ''change'', bubbles = True, cancelable = True,
      detail = Some \<lparr>facade = True\<rparr>, propagationStopped = False\<rparr>"

text \<open>\<^verbatim>\<open>new Event('input')\<close>: a plain event, with no \<^verbatim>\<open>detail\<close>.\<close>

definition newEvent :: "string \<Rightarrow> Event" where
  "newEvent t =
     \<lparr>ev_type = t, bubbles = False, cancelable = False,
      detail = None, propagationStopped = False\<rparr>"

definition dispatchEvent :: "CustomInputElement \<Rightarrow> Event \<Rightarrow> CustomInputElement" where
  "dispatchEvent el ev = el\<lparr>dispatched := dispatched el @ [ev]\<rparr>"

definition stopPropagation :: "Event \<Rightarrow> Event" where
  "stopPropagation ev = ev\<lparr>propagationStopped := True\<rparr>"

definition preventDefault :: "KeyboardEvent \<Rightarrow> KeyboardEvent" where
  "preventDefault ev = ev\<lparr>defaultPrevented := True\<rparr>"

text \<open>\<^verbatim>\<open>detail?.facade\<close> as a condition.\<close>

fun facadeMarked :: "Event \<Rightarrow> bool" where
  "facadeMarked ev = (case detail ev of None \<Rightarrow> False | Some d \<Rightarrow> facade d)"

text \<open>
  \<^verbatim>\<open>updateCursor\<close> calls \<^verbatim>\<open>el.setSelectionRange(position, position)\<close>, twice
  (the argument of \<^verbatim>\<open>setTimeout\<close> is the call itself, not the closure). The
  arguments of \<^verbatim>\<open>setSelectionRange\<close> are \<^verbatim>\<open>unsigned long\<close> values: the
  position is taken modulo \<open>2^32\<close>, so that a negative one becomes a very large one,
  and a position past the end of the text is the end of the text
  (\<open>selectionPosition\<close>).
\<close>

definition selectionPosition :: "string \<Rightarrow> int \<Rightarrow> int" where
  "selectionPosition text position = min (position mod 2 ^ 32) (int (length text))"

definition updateCursor :: "CustomInputElement \<Rightarrow> int \<Rightarrow> CustomInputElement" where
  "updateCursor el position =
     el\<lparr>selectionEnd := Some (selectionPosition (el_value el) position)\<rparr>"

section \<open>The formatter the handlers call\<close>

text \<open>
  \<^verbatim>\<open>import NumberFormat from './number-format'\<close>: the class is not among the source
  files, so the handlers take its operations as a parameter. \<open>nf_new\<close> is the
  constructor; \<open>nf_clean\<close> is the method \<^verbatim>\<open>clean(flag)\<close>, which returns a
  formatter and may reconfigure the one it is called on, so it yields the pair of the
  formatter returned and the receiver afterwards; \<open>nf_format\<close> and \<open>nf_unformat\<close>
  return strings and change nothing.
\<close>

record 'nf NumberFormatOps =
  nf_new :: "Options \<Rightarrow> 'nf"
  nf_clean :: "'nf \<Rightarrow> bool \<Rightarrow> 'nf \<times> 'nf"
  nf_format :: "'nf \<Rightarrow> Input \<Rightarrow> string"
  nf_unformat :: "'nf \<Rightarrow> Input \<Rightarrow> string"

section \<open>updateValue\<close>

text \<open>
  \<^verbatim>\<open>updateValue(el, vnode, { emit = true, force = false, clean = false })\<close>.
  \<open>vnodeValue\<close> is \<^verbatim>\<open>vnode?.props?.value\<close> (\<open>None\<close> when the chain stops at a
  missing link), and \<open>toNumber\<close> is the conversion \<^verbatim>\<open>Number(unmasked)\<close> of the
  host. The value the function returns is dropped by both handlers; the model returns
  the element.
\<close>

definition updateValue ::
  "'nf NumberFormatOps \<Rightarrow> (string \<Rightarrow> number) \<Rightarrow> CustomInputElement \<Rightarrow> Input option \<Rightarrow>
   bool \<Rightarrow> bool \<Rightarrow> bool \<Rightarrow> CustomInputElement" where
  "updateValue nf toNumber el vnodeValue emit force clean =
     (let opts = options el;
          oldV = oldValue el;
          currentValue = (if truthyInput vnodeValue then the vnodeValue else S (el_value el))
      in if force \<or> \<not> strictEq oldV (Some currentValue) then
           (let number = fst (nf_clean nf (nf_new nf opts) (clean \<and> \<not> reverseFill opts));
                masked0 = nf_format nf number currentValue;
                cleaned = nf_clean nf number (\<not> reverseFill opts);
                unmasked0 = nf_unformat nf (fst cleaned) currentValue;
                number' = snd cleaned;
                (maskedN, unmaskedN) =
                  (if clean then
                     (if truthyNumber (max_bound opts)
                         \<and> numGreater (toNumber unmasked0) (the (max_bound opts))
                      then (nf_format nf number' (N (the (max_bound opts))),
                            nf_unformat nf number' (N (the (max_bound opts))))
                      else if truthyNumber (min_bound opts)
                         \<and> numLess (toNumber unmasked0) (the (min_bound opts))
                      then (nf_format nf number' (N (the (min_bound opts))),
                            nf_unformat nf number' (N (the (min_bound opts))))
                      else (masked0, unmasked0))
                   else (masked0, unmasked0));
                el1 = el\<lparr>masked := Some (S maskedN), unmaskedValue := Some (S unmaskedN)\<rparr>;
                el2 = (if el_value el1 \<noteq> maskedN then el1\<lparr>el_value := maskedN\<rparr> else el1)
            in if emit then dispatchEvent el2 FacadeInputEvent else el2)
         else el)"

section \<open>The handlers\<close>

text \<open>
  \<^verbatim>\<open>inputHandler(event, el?)\<close>: the second parameter is never read; \<open>target\<close> is
  \<^verbatim>\<open>event.target\<close>. The result is the value returned (\<open>Some False\<close> for
  \<^verbatim>\<open>return false\<close>, \<open>None\<close> for no return value), the event and the element.
\<close>

definition inputHandler ::
  "'nf NumberFormatOps \<Rightarrow> (string \<Rightarrow> number) \<Rightarrow> Event \<Rightarrow> CustomInputElement \<Rightarrow>
   bool option \<times> Event \<times> CustomInputElement" where
  "inputHandler nf toNumber event target =
     (if facadeMarked event then (Some False, event, target)
      else
        (let oldV = oldValue target;
             opts = options target;
             maskedV = masked target;
             event1 = stopPropagation event;
             len = int (length (el_value target));
             pos0 = (case selectionEnd target of
                       None \<Rightarrow> len
                     | Some e \<Rightarrow> if e \<noteq> 0 then len - e else len);
             target1 = updateValue nf toNumber target None False False False;
             pos1 = (if suffix opts \<noteq> [] then max pos0 (int (length (suffix opts))) else pos0);
             pos2 = int (length (el_value target1)) - pos1;
             pos3 = (if prefix opts \<noteq> [] then max pos2 (int (length (prefix opts))) else pos2);
             target2 = updateCursor target1 pos3
         in if \<not> strictEq oldV (Some (S (el_value target2))) then
              (None, event1, dispatchEvent (target2\<lparr>oldValue := maskedV\<rparr>) FacadeInputEvent)
            else (None, event1, target2)))"

text \<open>\<^verbatim>\<open>blurHandler(event, el?)\<close>, with the same conventions.\<close>

definition blurHandler ::
  "'nf NumberFormatOps \<Rightarrow> (string \<Rightarrow> number) \<Rightarrow> Event \<Rightarrow> CustomInputElement \<Rightarrow>
   bool option \<times> Event \<times> CustomInputElement" where
  "blurHandler nf toNumber event target =
     (if facadeMarked event then (Some False, event, target)
      else
        (let oldV = oldValue target;
             maskedV = masked target;
             target1 = updateValue nf toNumber target None True True True
         in if \<not> strictEq oldV (Some (S (el_value target1))) then
              (None, event, dispatchEvent (target1\<lparr>oldValue := maskedV\<rparr>) FacadeChangeEvent)
            else (None, event, target1)))"

text \<open>
  \<^verbatim>\<open>keydownHandler(event, el)\<close>. \<open>regExp src\<close> stands for
  \<^verbatim>\<open>new RegExp(src, 'g')\<close> of the host: \<open>None\<close> when the constructor throws a
  \<^verbatim>\<open>SyntaxError\<close> (the source is built from the prefix and the suffix as they
  are), otherwise the function \<^verbatim>\<open>s => s.replace(re, '')\<close>. The exception leaves
  the handler before anything else is done.
\<close>

datatype error = SyntaxError

definition keydownHandler ::
  "(string \<Rightarrow> (string \<Rightarrow> string) option) \<Rightarrow> KeyboardEvent \<Rightarrow> CustomInputElement \<Rightarrow>
   error + KeyboardEvent \<times> CustomInputElement" where
  "keydownHandler regExp event el =
     (let opts = options el in
      case regExp (prefix opts @ ''|'' @ suffix opts) of
        None \<Rightarrow> Inl SyntaxError
      | Some strip \<Rightarrow>
        (let newValue = strip (el_value el);
             canNegativeInput = lessThanZero (min_bound opts)
         in if (keyCode event \<in> {110, 190} \<or> key event = decimal opts)
               \<and> includesStr newValue (decimal opts)
            then Inr (preventDefault event, el)
            else if keyCode event = 109 \<and> \<not> canNegativeInput
            then Inr (preventDefault event, el)
            else if keyCode event = 8 then
              (let selEnd = (case selectionEnd el of None \<Rightarrow> 0 | Some e \<Rightarrow> e);
                   character = slice (el_value el) (selEnd - 1) selEnd;
                   replace = slice (el_value el) (selEnd - 2) selEnd
               in if character = separator opts then
                    (let event1 = preventDefault event;
                         pos0 = int (length (el_value el)) - selEnd;
                         el1 = el\<lparr>el_value := replaceFirst replace (el_value el)\<rparr>;
                         pos1 = (if suffix opts \<noteq> []
                                 then max pos0 (int (length (suffix opts))) else pos0);
                         pos2 = int (length (el_value el1)) - pos1;
                         pos3 = (if prefix opts \<noteq> []
                                 then max pos2 (int (length (prefix opts))) else pos2);
                         el2 = updateCursor el1 pos3
                     in Inr (event1, dispatchEvent el2 (newEvent ''input'')))
                  else if character \<in> {prefix opts, ''-''} then
                    Inr (preventDefault event,
                         dispatchEvent (el\<lparr>el_value := []\<rparr>) (newEvent ''input''))
                  else Inr (event, el))
            else Inr (event, el)))"

section \<open>A formatter after the specification\<close>

text \<open>
  Modelled from the spec: the class \<^verbatim>\<open>NumberFormat\<close> of \<^verbatim>\<open>number-format.ts\<close>,
  which is not among the source files. The definitions follow section 4.1 of the
  specification sentence by sentence. They give the handlers a formatter to run with;
  the theorems about the handlers that hold for every formatter do not use them.
\<close>

definition isDigit :: "char \<Rightarrow> bool" where
  "isDigit c = (c \<in> set ''0123456789'')"

text \<open>
  ``Rejects (silently drops) any character that is not a digit, the sign, or the decimal
  character'': the characters of a numeric text, the point being the canonical decimal
  point.
\<close>

definition numericChars :: "string \<Rightarrow> string" where
  "numericChars s = filter (\<lambda>c. isDigit c \<or> c = CHR ''-'' \<or> c = CHR ''.'') s"

text \<open>
  A numeric text has at most one leading \<open>-\<close> and at most one point: the sign is read
  at the head of the text, the integer digits run to the first point, the fraction
  digits are those after it.
\<close>

definition isNegative :: "string \<Rightarrow> bool" where
  "isNegative s = (case numericChars s of [] \<Rightarrow> False | c # _ \<Rightarrow> c = CHR ''-'')"

definition integerDigits :: "string \<Rightarrow> string" where
  "integerDigits s = takeWhile isDigit (filter (\<lambda>c. c \<noteq> CHR ''-'') (numericChars s))"

definition fractionDigits :: "string \<Rightarrow> string" where
  "fractionDigits s =
     filter isDigit (dropWhile isDigit (filter (\<lambda>c. c \<noteq> CHR ''-'') (numericChars s)))"

definition hasPoint :: "string \<Rightarrow> bool" where
  "hasPoint s = (CHR ''.'' \<in> set s)"

text \<open>Adding one to a number written in decimal digits, lowest digit first.\<close>

definition succDigit :: "char \<Rightarrow> char" where
  "succDigit c = (case map_of (zip ''012345678'' ''123456789'') c of None \<Rightarrow> c | Some d \<Rightarrow> d)"

fun incrementRev :: "string \<Rightarrow> string" where
  "incrementRev [] = ''1''"
| "incrementRev (c # cs) =
     (if c = CHR ''9'' then CHR ''0'' # incrementRev cs else succDigit c # cs)"

text \<open>
  ``Rounds the fractional part to \<open>precision\<close> digits using standard
  round-half-away-from-zero'': the magnitude goes up exactly when the first digit
  dropped is 5 or more, and a carry may lengthen the integer part.
\<close>

definition roundHalfUp :: "nat \<Rightarrow> string \<times> string \<Rightarrow> string \<times> string" where
  "roundHalfUp p digits =
     (let i = fst digits; f = snd digits
      in if length f \<le> p then (i, f)
         else if f ! p \<in> set ''56789'' then
           (let r = rev (incrementRev (rev (i @ take p f)))
            in (take (length r - p) r, drop (length r - p) r))
         else (i, take p f))"

text \<open>
  ``Pads the fractional part with trailing zeros down to \<open>minimumFractionDigits\<close>, and
  trims trailing zeros beyond that down to (but not below) \<open>minimumFractionDigits\<close>.''
\<close>

definition padFraction :: "nat \<Rightarrow> string \<Rightarrow> string" where
  "padFraction m f =
     (if length f < m then f @ replicate (m - length f) (CHR ''0'')
      else take m f @ rev (dropWhile (\<lambda>c. c = CHR ''0'') (rev (drop m f))))"

text \<open>
  ``Inserts \<open>separator\<close> every 3 digits in the integer part, counting from the decimal
  point leftward'': on the digits lowest first, after every third digit that has a
  digit above it.
\<close>

fun groupRev :: "string \<Rightarrow> string \<Rightarrow> string" where
  "groupRev sep (a # b # c # d # ds) = a # b # c # rev sep @ groupRev sep (d # ds)"
| "groupRev sep ds = ds"

definition addSeparator :: "string \<Rightarrow> string \<Rightarrow> string" where
  "addSeparator sep i = rev (groupRev sep (rev i))"

text \<open>
  The display of a sign, integer digits and fraction digits: ``Prepends \<open>prefix\<close>,
  appends \<open>suffix\<close>''; the sign stands after the prefix and before the first digit
  (with an empty prefix that is the head of the text). The precision is the ``number
  of fractional digits enforced on commit'' (section 3): the fraction is rounded when
  the formatter is in the clean mode, which \<^verbatim>\<open>core.ts\<close> switches on before it
  formats on blur and off before it formats on input; the minimum of fraction digits
  is kept in both.
\<close>

definition display :: "Options \<Rightarrow> bool \<Rightarrow> bool \<Rightarrow> string \<Rightarrow> string \<Rightarrow> string" where
  "display opts cleanMode neg i f =
     (let r = (if cleanMode then roundHalfUp (precision opts) (i, f) else (i, f));
          f' = padFraction (minimumFractionDigits opts) (snd r)
      in prefix opts @ (if neg then ''-'' else []) @ addSeparator (separator opts) (fst r)
         @ (if f' = [] then [] else decimal opts @ f') @ suffix opts)"

text \<open>
  Modelled from the spec: \<^verbatim>\<open>format(value)\<close> of the missing class, on a text.
  ``If the value is absent/empty and \<open>prefill\<close> is false, returns the empty string''
  (no caller in \<^verbatim>\<open>core.ts\<close> asks for the null value); with \<open>prefill\<close> the empty
  field shows a formatted zero. A text outside the grammar degrades by
  \<open>numericChars\<close>. \<open>cleanMode\<close> is the flag \<^verbatim>\<open>clean(flag)\<close> has set.
\<close>

definition format :: "Options \<Rightarrow> bool \<Rightarrow> string \<Rightarrow> string" where
  "format opts cleanMode s =
     (if integerDigits s = [] \<and> fractionDigits s = [] then
        (if prefill opts then display opts cleanMode False ''0'' [] else [])
      else display opts cleanMode (isNegative s) (integerDigits s) (fractionDigits s))"


text \<open>Removing, and replacing, every occurrence of a text, leftmost first.\<close>

function replaceAll :: "string \<Rightarrow> string \<Rightarrow> string \<Rightarrow> string" where
  "replaceAll pat rep [] = []"
| "replaceAll pat rep (c # cs) =
     (if pat \<noteq> [] \<and> take (length pat) (c # cs) = pat
      then rep @ replaceAll pat rep (drop (length pat) (c # cs))
      else c # replaceAll pat rep cs)"
  by pat_completeness auto
termination
  by (relation "measure (\<lambda>(pat, rep, s). length s)") auto

definition stripPrefix :: "string \<Rightarrow> string \<Rightarrow> string" where
  "stripPrefix p s = (if take (length p) s = p then drop (length p) s else s)"

definition stripSuffix :: "string \<Rightarrow> string \<Rightarrow> string" where
  "stripSuffix x s = rev (stripPrefix (rev x) (rev s))"

text \<open>
  Modelled from the spec: the reverse-fill mode of \<open>unformat\<close>, ``digits entered
  before a decimal marker appears are reinterpreted as trailing fractional digits''. A
  text of digits with no point gets its point \<open>precision\<close> digits from the end, zeros
  filling the front.
\<close>

definition collapse :: "nat \<Rightarrow> string \<Rightarrow> string" where
  "collapse p body =
     (if hasPoint body \<or> p = 0 then body
      else (let ds = replicate (Suc p - length body) (CHR ''0'') @ body
            in take (length ds - p) ds @ ''.'' @ drop (length ds - p) ds))"

text \<open>
  Modelled from the spec: \<^verbatim>\<open>unformat(display)\<close> of the missing class. ``Strips
  \<open>prefix\<close>, \<open>suffix\<close>, and every occurrence of \<open>separator\<close>. Normalizes
  \<open>decimal\<close> to a canonical decimal point. Rejects any character that is not a
  digit, the sign, or the decimal character. Returns the empty string for input that
  reduces to no digits.'' The mode of the sentence ``if reverseFill/clean mode is
  active'' is the option \<open>reverseFill\<close>, which section 3 describes as the ``alternate
  fill direction/cleaning mode (right-to-left numeric entry)'': a field that is not
  filled in reverse keeps the digits where they were typed.
\<close>

definition unformat :: "Options \<Rightarrow> string \<Rightarrow> string" where
  "unformat opts s =
     (let t = replaceAll (decimal opts) ''.''
                (replaceAll (separator opts) []
                   (stripSuffix (suffix opts) (stripPrefix (prefix opts) s)));
          i = integerDigits t;
          f = fractionDigits t;
          body = i @ (if hasPoint t then ''.'' @ f else [])
      in if i = [] \<and> f = [] then []
         else (if isNegative t then ''-'' else [])
              @ (if reverseFill opts then collapse (precision opts) body else body))"

text \<open>
  Modelled from the spec: \<open>format\<close> ``accepts a number or a numeric-looking
  string''. A \<^verbatim>\<open>number\<close> is read through its decimal text: sign, integer part,
  and at most twenty digits of the fraction.
\<close>

function natDigits :: "nat \<Rightarrow> string" where
  "natDigits n =
     (if n < 10 then [''0123456789'' ! n]
      else natDigits (n div 10) @ [''0123456789'' ! (n mod 10)])"
  by pat_completeness auto
termination
  by (relation "measure (\<lambda>n. n)") auto

fun expandFraction :: "nat \<Rightarrow> rat \<Rightarrow> string" where
  "expandFraction 0 r = []"
| "expandFraction (Suc k) r =
     (if r = 0 then []
      else (''0123456789'' ! nat \<lfloor>r * 10\<rfloor>)
           # expandFraction k (r * 10 - of_int \<lfloor>r * 10\<rfloor>))"

fun numberText :: "number \<Rightarrow> string" where
  "numberText NaN = ''NaN''"
| "numberText (Num r) =
     (let a = \<bar>r\<bar>; w = \<lfloor>a\<rfloor>; fr = expandFraction 20 (a - of_int w)
      in (if r < 0 then ''-'' else []) @ natDigits (nat w)
         @ (if fr = [] then [] else ''.'' @ fr))"

fun inputText :: "Input \<Rightarrow> string" where
  "inputText (S s) = s"
| "inputText (N n) = numberText n"

text \<open>
  Modelled from the spec: the class \<^verbatim>\<open>NumberFormat\<close> as the handlers use it. An
  instance is its options and its clean flag, off in a new formatter;
  \<^verbatim>\<open>clean(flag)\<close> is ``a configuration toggle'' that returns the formatter it
  configured.
\<close>

definition NumberFormat :: "(Options \<times> bool) NumberFormatOps" where
  "NumberFormat =
     \<lparr>nf_new = (\<lambda>opts. (opts, False)),
      nf_clean = (\<lambda>number flag. ((fst number, flag), (fst number, flag))),
      nf_format = (\<lambda>number v. format (fst number) (snd number) (inputText v)),
      nf_unformat = (\<lambda>number v. unformat (fst number) (inputText v))\<rparr>"

text \<open>
  The conversion \<^verbatim>\<open>Number(text)\<close> of the host, for the examples, on the texts
  \<open>unformat\<close> returns: the empty text is 0; an optional \<open>-\<close>, digits and at most
  one point, with a digit somewhere, is the number it writes; any other text is \<open>NaN\<close>
  here. The theorems that hold for every conversion take it as the parameter
  \<open>toNumber\<close>.
\<close>

definition digitValue :: "char \<Rightarrow> nat" where
  "digitValue c = length (takeWhile (\<lambda>d. d \<noteq> c) ''0123456789'')"

definition digitsValue :: "string \<Rightarrow> nat" where
  "digitsValue ds = foldl (\<lambda>a c. 10 * a + digitValue c) 0 ds"

definition Number :: "string \<Rightarrow> number" where
  "Number s =
     (let neg = (s \<noteq> [] \<and> hd s = CHR ''-'');
          u = (if neg then tl s else s);
          i = takeWhile isDigit u;
          rest = dropWhile isDigit u;
          f = (if rest \<noteq> [] \<and> hd rest = CHR ''.'' then tl rest else rest)
      in if s = [] then Num 0
         else if (i = [] \<and> f = []) \<or> \<not> list_all isDigit f then NaN
         else (let v = of_nat (digitsValue (i @ f)) / of_nat (10 ^ length f)
               in Num (if neg then - v else v)))"

section \<open>Example configurations and fields\<close>

text \<open>
  The configuration the examples start from: no prefix or suffix, \<open>,\<close> between the
  thousands, \<open>.\<close> before the fraction, no fraction digits, no bounds.
\<close>

definition plainOptions :: Options where
  "plainOptions =
     \<lparr>prefix = [], suffix = [], separator = '','', decimal = ''.'', precision = 0,
      minimumFractionDigits = 0, prefill = False, reverseFill = False,
      min_bound = None, max_bound = None, nullValue = []\<rparr>"

text \<open>
  A field whose last masked value \<open>m\<close> (with the numeric text \<open>u\<close>) is stored in all
  three properties, after the user has changed the text to \<open>text\<close>.
\<close>

definition editedField ::
  "Options \<Rightarrow> string \<Rightarrow> string \<Rightarrow> string \<Rightarrow> int \<Rightarrow> CustomInputElement" where
  "editedField opts m u text caret =
     \<lparr>el_value = text, selectionEnd = Some caret, options = opts, masked = Some (S m),
      unmaskedValue = Some (S u), oldValue = Some (S m), dispatched = []\<rparr>"

text \<open>The events of the browser: a native input or blur event, and key presses.\<close>

definition nativeEvent :: "string \<Rightarrow> Event" where
  "nativeEvent t =
     \<lparr>ev_type = t, bubbles = True, cancelable = False, detail = None,
      propagationStopped = False\<rparr>"

definition keyPress :: "int \<Rightarrow> string \<Rightarrow> KeyboardEvent" where
  "keyPress code k = \<lparr>keyCode = code, key = k, defaultPrevented = False\<rparr>"

section \<open>Events the handlers emitted themselves\<close>

text \<open>
  C9. An input or blur event that carries the marker \<^verbatim>\<open>detail.facade\<close> makes its
  handler return \<^verbatim>\<open>false\<close> at once: the event and the element, with the list of
  dispatched events, are what they were, whatever the formatter is.
\<close>

theorem facade_event_short_circuits:
  assumes "detail event = Some d" and "facade d"
  shows "inputHandler nf toNumber event target = (Some False, event, target)
       \<and> blurHandler nf toNumber event target = (Some False, event, target)"
  using assms by (simp add: inputHandler_def blurHandler_def)

text \<open>
  The hypotheses of C9 at the event the engine emits: a field showing \<open>12\<close> is what
  it was after either handler received \<open>FacadeInputEvent\<close>.
\<close>

theorem facade_event_short_circuits_witness:
  "detail FacadeInputEvent = Some \<lparr>facade = True\<rparr> \<and> facade \<lparr>facade = True\<rparr>
   \<and> inputHandler NumberFormat Number FacadeInputEvent (editedField plainOptions ''12'' ''12'' ''12'' 2)
       = (Some False, FacadeInputEvent, editedField plainOptions ''12'' ''12'' ''12'' 2)
   \<and> blurHandler NumberFormat Number FacadeInputEvent (editedField plainOptions ''12'' ''12'' ''12'' 2)
       = (Some False, FacadeInputEvent, editedField plainOptions ''12'' ''12'' ''12'' 2)"
  using facade_event_short_circuits [of FacadeInputEvent "\<lparr>facade = True\<rparr>" NumberFormat Number
      "editedField plainOptions ''12'' ''12'' ''12'' 2"]
  by (simp add: FacadeInputEvent_def)

section \<open>Key presses\<close>

text \<open>
  In the theorems of this section, but for the second half of the first theorem on
  C10, the pattern built from the prefix and the suffix compiles, and \<open>strip\<close> is
  any function: the text it returns is only searched for the decimal character when
  the key pressed is a decimal key.
\<close>

text \<open>
  C2. The minus key is to be suppressed when \<open>min \<ge> 0\<close>, whichever key produced the
  \<open>-\<close>. The handler tests the key code 109 alone, the numpad's subtract key: the minus
  key of the main row (key code 189, key \<open>-\<close>) pressed in a field with \<open>min = 0\<close>
  leaves the handler with the event as it came, its default not prevented.
\<close>

theorem minus_key_of_main_row_not_suppressed:
  "keydownHandler (\<lambda>src. Some strip) (keyPress 189 ''-'')
      (editedField (plainOptions\<lparr>min_bound := Some (Num 0)\<rparr>) ''5'' ''5'' ''5'' caret)
   = Inr (keyPress 189 ''-'',
          editedField (plainOptions\<lparr>min_bound := Some (Num 0)\<rparr>) ''5'' ''5'' ''5'' caret)"
  by (simp add: keydownHandler_def keyPress_def editedField_def plainOptions_def)

text \<open>The same field and bound, the numpad's key: suppressed.\<close>

lemma minus_key_of_numpad_suppressed:
  "keydownHandler (\<lambda>src. Some strip) (keyPress 109 ''-'')
      (editedField (plainOptions\<lparr>min_bound := Some (Num 0)\<rparr>) ''5'' ''5'' ''5'' caret)
   = Inr (preventDefault (keyPress 109 ''-''),
          editedField (plainOptions\<lparr>min_bound := Some (Num 0)\<rparr>) ''5'' ''5'' ''5'' caret)"
  by (simp add: keydownHandler_def keyPress_def editedField_def plainOptions_def)

text \<open>
  C3. Backspace with the separator before the caret is to delete the separator and the
  digit before it, at the caret. The handler removes the first occurrence of these two
  characters in the text: in \<open>1,231,234\<close> with the caret after the second separator the
  two characters are \<open>1,\<close>, which also open the text, and the field becomes
  \<open>231,234\<close>, not \<open>1,23234\<close>.
\<close>

theorem backspace_after_separator_removes_first_occurrence:
  "keydownHandler (\<lambda>src. Some strip) (keyPress 8 ''Backspace'')
      (editedField plainOptions ''1,231,234'' ''1231234'' ''1,231,234'' 6)
   = Inr (preventDefault (keyPress 8 ''Backspace''),
          dispatchEvent
            ((editedField plainOptions ''1,231,234'' ''1231234'' ''1,231,234'' 6)
               \<lparr>el_value := ''231,234'', selectionEnd := Some 4\<rparr>)
            (newEvent ''input''))"
  by (simp add: keydownHandler_def keyPress_def editedField_def plainOptions_def slice_def
      updateCursor_def selectionPosition_def dispatchEvent_def preventDefault_def
      Let_def)

text \<open>The example of the specification: \<open>1,234\<close> with the caret after the separator.\<close>

lemma backspace_after_first_separator:
  "keydownHandler (\<lambda>src. Some strip) (keyPress 8 ''Backspace'')
      (editedField plainOptions ''1,234'' ''1234'' ''1,234'' 2)
   = Inr (preventDefault (keyPress 8 ''Backspace''),
          dispatchEvent
            ((editedField plainOptions ''1,234'' ''1234'' ''1,234'' 2)
               \<lparr>el_value := ''234'', selectionEnd := Some 0\<rparr>)
            (newEvent ''input''))"
  by (simp add: keydownHandler_def keyPress_def editedField_def plainOptions_def slice_def
      updateCursor_def selectionPosition_def dispatchEvent_def preventDefault_def
      Let_def)

text \<open>
  C4. Backspace with the last character of the prefix before the caret is to clear the
  field. The handler compares the one character before the caret with the whole
  prefix: with the prefix \<open>US$\<close> and the caret right after it, the character \<open>$\<close> is
  not the prefix, and the handler does nothing.
\<close>

theorem backspace_after_long_prefix_not_handled:
  "keydownHandler (\<lambda>src. Some strip) (keyPress 8 ''Backspace'')
      (editedField (plainOptions\<lparr>prefix := ''US$''\<rparr>) ''US$1'' ''1'' ''US$1'' 3)
   = Inr (keyPress 8 ''Backspace'',
          editedField (plainOptions\<lparr>prefix := ''US$''\<rparr>) ''US$1'' ''1'' ''US$1'' 3)"
  by (simp add: keydownHandler_def keyPress_def editedField_def plainOptions_def slice_def Let_def)

text \<open>A prefix of one character is recognised, and the field is cleared.\<close>

lemma backspace_after_one_character_prefix_clears:
  "keydownHandler (\<lambda>src. Some strip) (keyPress 8 ''Backspace'')
      (editedField (plainOptions\<lparr>prefix := ''$''\<rparr>) ''$1'' ''1'' ''$1'' 1)
   = Inr (preventDefault (keyPress 8 ''Backspace''),
          dispatchEvent
            ((editedField (plainOptions\<lparr>prefix := ''$''\<rparr>) ''$1'' ''1'' ''$1'' 1)\<lparr>el_value := []\<rparr>)
            (newEvent ''input''))"
  by (simp add: keydownHandler_def keyPress_def editedField_def plainOptions_def slice_def Let_def)

lemma slice_before_start: "slice s (- 1) 0 = []"
  by (simp add: slice_def Let_def)

text \<open>
  C10, as stated, fails in two ways. With an empty separator the empty text taken
  before the caret is the separator, and the branch of the separator comes first: in
  the field \<open>1234\<close> the default is prevented and an input event dispatched, but the
  text stays. And a pattern that \<^verbatim>\<open>new RegExp\<close> refuses (with the suffix \<open>+\<close>
  the pattern is \<open>|+\<close>, a quantifier with nothing to repeat) ends the handler with
  the exception, before anything is prevented.
\<close>

theorem backspace_at_start_not_cleared:
  "keydownHandler (\<lambda>src. Some (\<lambda>v. v)) (keyPress 8 ''Backspace'')
      (editedField (plainOptions\<lparr>separator := []\<rparr>) ''1234'' ''1234'' ''1234'' 0)
   = Inr (preventDefault (keyPress 8 ''Backspace''),
          dispatchEvent (editedField (plainOptions\<lparr>separator := []\<rparr>) ''1234'' ''1234'' ''1234'' 0)
            (newEvent ''input''))
   \<and> keydownHandler (\<lambda>src. if src = ''|+'' then None else Some (\<lambda>v. v))
      (keyPress 8 ''Backspace'')
      (editedField (plainOptions\<lparr>suffix := ''+''\<rparr>) ''1,234+'' ''1234'' ''1,234+'' 0)
   = Inl SyntaxError"
  by (simp add: keydownHandler_def keyPress_def editedField_def plainOptions_def slice_def
      updateCursor_def selectionPosition_def dispatchEvent_def preventDefault_def
      Let_def)

text \<open>
  C10, amended. Backspace (key code 8, key \<open>Backspace\<close>, which is not the decimal
  character) with the caret at the very start of the field (\<^verbatim>\<open>selectionEnd\<close> 0 or
  \<^verbatim>\<open>null\<close>), an empty prefix, a separator that is not empty, and a pattern built
  from the prefix and the suffix that compiles: the character taken before the caret
  is the empty text, which is the prefix, so the default deletion is suppressed, the
  field is cleared and an input event is dispatched.
\<close>

theorem backspace_at_start_with_empty_prefix_clears:
  assumes "keyCode event = 8" and "key event = ''Backspace''"
    and "decimal (options el) \<noteq> ''Backspace''"
    and "prefix (options el) = []" and "separator (options el) \<noteq> []"
    and "selectionEnd el = None \<or> selectionEnd el = Some 0"
    and "regExp (''|'' @ suffix (options el)) = Some strip"
  shows "keydownHandler regExp event el
         = Inr (preventDefault event, dispatchEvent (el\<lparr>el_value := []\<rparr>) (newEvent ''input''))"
proof -
  have sel: "(case selectionEnd el of None \<Rightarrow> 0 | Some e \<Rightarrow> e) = 0"
    using assms(6) by auto
  have ch: "slice (el_value el) (- 1) 0 = []"
    by (rule slice_before_start)
  show ?thesis
    using assms(1-5,7) by (simp add: keydownHandler_def Let_def sel ch)
qed

text \<open>
  The hypotheses of the amended C10 at the field \<open>1,234\<close> with the caret at 0 and the plain
  options: the pattern is \<open>|\<close>, which matches the empty text only, so that removing
  its matches returns the text.
\<close>

theorem backspace_at_start_with_empty_prefix_clears_witness:
  "keydownHandler (\<lambda>src. Some (\<lambda>v. v)) (keyPress 8 ''Backspace'')
      (editedField plainOptions ''1,234'' ''1234'' ''1,234'' 0)
   = Inr (preventDefault (keyPress 8 ''Backspace''),
          dispatchEvent ((editedField plainOptions ''1,234'' ''1234'' ''1,234'' 0)\<lparr>el_value := []\<rparr>)
            (newEvent ''input''))"
  using backspace_at_start_with_empty_prefix_clears
    [of "keyPress 8 ''Backspace''" "editedField plainOptions ''1,234'' ''1234'' ''1,234'' 0"
        "\<lambda>src. Some (\<lambda>v. v)" "\<lambda>v. v"]
  by (simp add: keyPress_def editedField_def plainOptions_def)

section \<open>Typing\<close>

lemma strictEq_text: "strictEq v (Some (S m)) = (v = Some (S m))"
  by (cases "(v, Some (S m))" rule: strictEq.cases) auto

text \<open>
  \<^verbatim>\<open>updateValue(target, null, { emit: false })\<close>, as the input handler calls it:
  nothing happens when the text is the stored \<open>oldValue\<close>; otherwise the text is
  formatted and unformatted, and the three results are stored.
\<close>

lemma updateValue_typing:
  "updateValue nf toNumber el None False False False =
     (if oldValue el = Some (S (el_value el)) then el
      else el\<lparr>masked := Some (S (nf_format nf (fst (nf_clean nf (nf_new nf (options el)) False))
                                  (S (el_value el)))),
              unmaskedValue :=
                Some (S (nf_unformat nf
                          (fst (nf_clean nf (fst (nf_clean nf (nf_new nf (options el)) False))
                                 (\<not> reverseFill (options el))))
                          (S (el_value el)))),
              el_value := nf_format nf (fst (nf_clean nf (nf_new nf (options el)) False))
                            (S (el_value el))\<rparr>)"
  by (simp add: updateValue_def Let_def strictEq_text)

text \<open>\<^verbatim>\<open>updateCursor\<close> sets the caret and nothing else.\<close>

lemma updateCursor_fields:
  "selectionEnd (updateCursor el p) = Some (selectionPosition (el_value el) p)"
  "el_value (updateCursor el p) = el_value el"
  "options (updateCursor el p) = options el"
  "masked (updateCursor el p) = masked el"
  "unmaskedValue (updateCursor el p) = unmaskedValue el"
  "oldValue (updateCursor el p) = oldValue el"
  "dispatched (updateCursor el p) = dispatched el"
  by (simp_all add: updateCursor_def)

text \<open>
  When the stored \<open>oldValue\<close> is the newly computed masked text, the input handler
  leaves \<open>oldValue\<close> as it was and dispatches nothing, for every formatter.
\<close>

lemma input_without_visible_change:
  assumes "\<not> facadeMarked event"
    and "newMasked = nf_format nf (fst (nf_clean nf (nf_new nf (options target)) False))
                       (S (el_value target))"
    and "oldValue target = Some (S newMasked)"
    and "target' = snd (snd (inputHandler nf toNumber event target))"
  shows "oldValue target' = oldValue target \<and> dispatched target' = dispatched target
       \<and> el_value target' = newMasked \<and> options target' = options target"
  using assms
  by (simp add: inputHandler_def updateValue_typing Let_def strictEq_text updateCursor_fields
      del: facadeMarked.simps)

text \<open>
  C7. An accepted edit is to store the newly computed masked text as \<open>oldValue\<close>. The
  handler reads \<^verbatim>\<open>masked\<close> off the element before \<^verbatim>\<open>updateValue\<close> runs and
  stores that earlier value: a field that shows and stores \<open>1\<close>, in which the user
  types \<open>2\<close>, ends with the masked text \<open>12\<close>, one notification, and \<open>oldValue = 1\<close>.
\<close>

theorem accepted_input_stores_stale_masked:
  "masked (snd (snd (inputHandler NumberFormat Number (nativeEvent ''input'')
       (editedField plainOptions ''1'' ''1'' ''12'' 2)))) = Some (S ''12'')
   \<and> el_value (snd (snd (inputHandler NumberFormat Number (nativeEvent ''input'')
       (editedField plainOptions ''1'' ''1'' ''12'' 2)))) = ''12''
   \<and> dispatched (snd (snd (inputHandler NumberFormat Number (nativeEvent ''input'')
       (editedField plainOptions ''1'' ''1'' ''12'' 2)))) = [FacadeInputEvent]
   \<and> oldValue (snd (snd (inputHandler NumberFormat Number (nativeEvent ''input'')
       (editedField plainOptions ''1'' ''1'' ''12'' 2)))) = Some (S ''1'')"
  by code_simp

text \<open>
  For every formatter: an edit that changes the visible text stores, as \<open>oldValue\<close>,
  the \<open>masked\<close> property the element had before the edit. The blur handler has the
  same shape.
\<close>

lemma accepted_edit_stores_masked_read_before:
  assumes "\<not> facadeMarked event"
    and "target' = snd (snd (inputHandler nf toNumber event target))"
    and "oldValue target \<noteq> Some (S (el_value target'))"
  shows "oldValue target' = masked target"
  using assms
  by (simp add: inputHandler_def updateValue_typing Let_def strictEq_text updateCursor_fields
      dispatchEvent_def del: facadeMarked.simps split: if_splits)

text \<open>
  What follows from the stale \<open>oldValue\<close>: when the user then deletes the \<open>2\<close>, the
  text \<open>1\<close> equals the stored \<open>oldValue\<close>, \<^verbatim>\<open>updateValue\<close> does nothing, and the
  field shows \<open>1\<close> while \<open>masked\<close> and \<open>unmaskedValue\<close> remain \<open>12\<close>, with no
  notification.
\<close>

lemma stale_oldValue_hides_the_next_edit:
  "el_value (snd (snd (inputHandler NumberFormat Number (nativeEvent ''input'')
      ((snd (snd (inputHandler NumberFormat Number (nativeEvent ''input'')
           (editedField plainOptions ''1'' ''1'' ''12'' 2))))
        \<lparr>el_value := ''1'', selectionEnd := Some 1\<rparr>)))) = ''1''
   \<and> unmaskedValue (snd (snd (inputHandler NumberFormat Number (nativeEvent ''input'')
      ((snd (snd (inputHandler NumberFormat Number (nativeEvent ''input'')
           (editedField plainOptions ''1'' ''1'' ''12'' 2))))
        \<lparr>el_value := ''1'', selectionEnd := Some 1\<rparr>)))) = Some (S ''12'')
   \<and> dispatched (snd (snd (inputHandler NumberFormat Number (nativeEvent ''input'')
      ((snd (snd (inputHandler NumberFormat Number (nativeEvent ''input'')
           (editedField plainOptions ''1'' ''1'' ''12'' 2))))
        \<lparr>el_value := ''1'', selectionEnd := Some 1\<rparr>)))) = [FacadeInputEvent]"
  by code_simp

text \<open>
  C6. An edit whose masked text is the stored \<open>oldValue\<close> is to be a no-op, so that
  a second call of the input handler with the same resulting masked text fires no
  second notification. Since \<open>oldValue\<close> is the masked text of the edit before
  (C7), the second call does not find it: the field that shows and stores \<open>1\<close>, in
  which the user types \<open>2\<close>, notifies once; the handler called again on the same
  field computes the same masked text \<open>12\<close> and notifies a second time.
\<close>

theorem second_identical_input_notifies_again:
  "el_value (snd (snd (inputHandler NumberFormat Number (nativeEvent ''input'')
       (editedField plainOptions ''1'' ''1'' ''12'' 2)))) = ''12''
   \<and> dispatched (snd (snd (inputHandler NumberFormat Number (nativeEvent ''input'')
       (editedField plainOptions ''1'' ''1'' ''12'' 2)))) = [FacadeInputEvent]
   \<and> el_value (snd (snd (inputHandler NumberFormat Number (nativeEvent ''input'')
       (snd (snd (inputHandler NumberFormat Number (nativeEvent ''input'')
          (editedField plainOptions ''1'' ''1'' ''12'' 2))))))) = ''12''
   \<and> dispatched (snd (snd (inputHandler NumberFormat Number (nativeEvent ''input'')
       (snd (snd (inputHandler NumberFormat Number (nativeEvent ''input'')
          (editedField plainOptions ''1'' ''1'' ''12'' 2)))))))
       = [FacadeInputEvent, FacadeInputEvent]"
  by code_simp

text \<open>
  The caret the input handler sets, in the steps of the source: \<open>pos3\<close> is the
  position it passes to \<^verbatim>\<open>updateCursor\<close>.
\<close>

lemma input_caret:
  assumes "\<not> facadeMarked event"
    and "target' = snd (snd (inputHandler nf toNumber event target))"
    and "pos0 = (case selectionEnd target of None \<Rightarrow> int (length (el_value target))
                 | Some e \<Rightarrow> if e \<noteq> 0 then int (length (el_value target)) - e
                            else int (length (el_value target)))"
    and "pos1 = (if suffix (options target) \<noteq> []
                 then max pos0 (int (length (suffix (options target)))) else pos0)"
    and "pos2 = int (length (el_value target')) - pos1"
    and "pos3 = (if prefix (options target) \<noteq> []
                 then max pos2 (int (length (prefix (options target)))) else pos2)"
  shows "selectionEnd target' = Some (selectionPosition (el_value target') pos3)"
  using assms
  by (simp add: inputHandler_def updateValue_typing Let_def strictEq_text updateCursor_fields
      dispatchEvent_def del: facadeMarked.simps)

text \<open>
  C8. The caret is never to land inside the prefix or the suffix. The floor against
  the prefix is skipped when the prefix is empty, and nothing then keeps the position
  from being negative: in the field \<open>1,234%\<close> with no prefix and the suffix \<open>%\<close>,
  in which the user deletes the \<open>1\<close> with the caret at the start, the text
  \<open>,234%\<close> is masked to \<open>234%\<close>, the distance from the end was 5, the position
  passed on is \<open>4 - 5 = -1\<close>, and the caret is set at 4, the end of the text, behind
  the suffix, where the claim allows 3 at most.
\<close>

theorem input_caret_behind_suffix_with_empty_prefix:
  "prefix (plainOptions\<lparr>suffix := ''%''\<rparr>) = []
   \<and> suffix (plainOptions\<lparr>suffix := ''%''\<rparr>) = ''%''
   \<and> el_value (snd (snd (inputHandler NumberFormat Number (nativeEvent ''input'')
        (editedField (plainOptions\<lparr>suffix := ''%''\<rparr>) ''1,234%'' ''1234'' '',234%'' 0)))) = ''234%''
   \<and> selectionEnd (snd (snd (inputHandler NumberFormat Number (nativeEvent ''input'')
        (editedField (plainOptions\<lparr>suffix := ''%''\<rparr>) ''1,234%'' ''1234'' '',234%'' 0)))) = Some 4"
  by code_simp

text \<open>
  With a prefix that is not empty the floor is applied: for every formatter, with the
  caret inside the text and a new text long enough to hold the prefix and the suffix,
  the caret is set between the prefix and the suffix.
\<close>

lemma input_caret_bounds:
  assumes "\<not> facadeMarked event"
    and "selectionEnd target = None
         \<or> (\<exists>e. selectionEnd target = Some e \<and> 0 \<le> e \<and> e \<le> int (length (el_value target)))"
    and "target' = snd (snd (inputHandler nf toNumber event target))"
    and "prefix (options target) \<noteq> []"
    and "int (length (prefix (options target))) + int (length (suffix (options target)))
         \<le> int (length (el_value target'))"
    and "int (length (el_value target')) < 2 ^ 32"
  shows "\<exists>p. selectionEnd target' = Some p
           \<and> int (length (prefix (options target))) \<le> p
           \<and> p \<le> int (length (el_value target')) - int (length (suffix (options target)))"
proof -
  define pos0 where "pos0 = (case selectionEnd target of None \<Rightarrow> int (length (el_value target))
                 | Some e \<Rightarrow> if e \<noteq> 0 then int (length (el_value target)) - e
                            else int (length (el_value target)))"
  define pos1 where "pos1 = (if suffix (options target) \<noteq> []
                 then max pos0 (int (length (suffix (options target)))) else pos0)"
  define pos2 where "pos2 = int (length (el_value target')) - pos1"
  define pos3 where "pos3 = (if prefix (options target) \<noteq> []
                 then max pos2 (int (length (prefix (options target)))) else pos2)"
  have c: "selectionEnd target' = Some (selectionPosition (el_value target') pos3)"
    by (rule input_caret [OF assms(1) assms(3) pos0_def pos1_def pos2_def pos3_def])
  have p0: "0 \<le> pos0"
    using assms(2) unfolding pos0_def by auto
  have p1: "int (length (suffix (options target))) \<le> pos1"
    using p0 unfolding pos1_def by auto
  have up: "pos2 \<le> int (length (el_value target')) - int (length (suffix (options target)))"
    using p1 unfolding pos2_def by simp
  have lo: "int (length (prefix (options target))) \<le> pos3"
    using assms(4) unfolding pos3_def by simp
  have hi: "pos3 \<le> int (length (el_value target')) - int (length (suffix (options target)))"
    using up assms(4,5) unfolding pos3_def by simp
  have nn: "0 \<le> pos3"
    using lo by simp
  have lt: "pos3 < 2 ^ 32"
    using hi assms(6) by simp
  have m: "pos3 mod 2 ^ 32 = pos3"
    using nn lt by simp
  have "selectionPosition (el_value target') pos3 = pos3"
    using hi unfolding selectionPosition_def m by simp
  then show ?thesis
    using c lo hi by simp
qed

section \<open>Leaving the field\<close>

text \<open>
  C1. On blur the value is to be clamped to the bounds, for every numeric bound, 0
  included. The handler tests the bound itself before it compares
  (\<^verbatim>\<open>options.max && ...\<close>), and 0 is not truthy: with \<open>max = 0\<close> the text \<open>5\<close>,
  and with \<open>min = 0\<close> the text \<open>-5\<close>, stay as they are.
\<close>

theorem blur_does_not_clamp_to_zero_bound:
  "numGreater (Number ''5'') (Num 0)
   \<and> el_value (snd (snd (blurHandler NumberFormat Number (nativeEvent ''blur'')
        (editedField (plainOptions\<lparr>max_bound := Some (Num 0)\<rparr>) ''5'' ''5'' ''5'' 1)))) = ''5''
   \<and> unmaskedValue (snd (snd (blurHandler NumberFormat Number (nativeEvent ''blur'')
        (editedField (plainOptions\<lparr>max_bound := Some (Num 0)\<rparr>) ''5'' ''5'' ''5'' 1)))) = Some (S ''5'')
   \<and> numLess (Number ''-5'') (Num 0)
   \<and> el_value (snd (snd (blurHandler NumberFormat Number (nativeEvent ''blur'')
        (editedField (plainOptions\<lparr>min_bound := Some (Num 0)\<rparr>) ''5'' ''5'' ''-5'' 2)))) = ''-5''
   \<and> unmaskedValue (snd (snd (blurHandler NumberFormat Number (nativeEvent ''blur'')
        (editedField (plainOptions\<lparr>min_bound := Some (Num 0)\<rparr>) ''5'' ''5'' ''-5'' 2)))) = Some (S ''-5'')"
  by code_simp

text \<open>The example of the specification, with a bound that is not 0: \<open>150\<close> becomes \<open>100\<close>.\<close>

lemma blur_clamps_to_nonzero_max:
  "el_value (snd (snd (blurHandler NumberFormat Number (nativeEvent ''blur'')
        (editedField (plainOptions\<lparr>max_bound := Some (Num 100)\<rparr>) ''150'' ''150'' ''150'' 3)))) = ''100''
   \<and> unmaskedValue (snd (snd (blurHandler NumberFormat Number (nativeEvent ''blur'')
        (editedField (plainOptions\<lparr>max_bound := Some (Num 100)\<rparr>) ''150'' ''150'' ''150'' 3)))) = Some (S ''100'')"
  by code_simp

text \<open>The same with two fraction digits configured.\<close>

lemma blur_clamps_with_fraction_digits:
  "el_value (snd (snd (blurHandler NumberFormat Number (nativeEvent ''blur'')
        (editedField (plainOptions\<lparr>precision := 2, max_bound := Some (Num 100)\<rparr>)
           ''150'' ''150'' ''150'' 3)))) = ''100''
   \<and> unmaskedValue (snd (snd (blurHandler NumberFormat Number (nativeEvent ''blur'')
        (editedField (plainOptions\<lparr>precision := 2, max_bound := Some (Num 100)\<rparr>)
           ''150'' ''150'' ''150'' 3)))) = Some (S ''100'')"
  by code_simp

text \<open>
  For every formatter and every conversion: with bounds that are 0 or unset, blur stores
  the formatted and the unformatted text, whatever the number is.
\<close>

lemma blur_with_falsy_bounds:
  assumes "\<not> facadeMarked event"
    and "\<not> truthyNumber (max_bound (options target))"
    and "\<not> truthyNumber (min_bound (options target))"
    and "number = fst (nf_clean nf (nf_new nf (options target)) (\<not> reverseFill (options target)))"
  shows "masked (snd (snd (blurHandler nf toNumber event target)))
           = Some (S (nf_format nf number (S (el_value target))))
       \<and> unmaskedValue (snd (snd (blurHandler nf toNumber event target)))
           = Some (S (nf_unformat nf (fst (nf_clean nf number (\<not> reverseFill (options target))))
                        (S (el_value target))))"
  using assms
  by (simp add: blurHandler_def updateValue_def Let_def dispatchEvent_def
      del: facadeMarked.simps)

section \<open>The formatter of the specification: format, unformat, format\<close>




































end
